theory Spec2Isabelle
  imports Main "HOL-Library.Sublist" "HOL-Library.Word"
begin

unbundle bit_operations_syntax

section \<open>Types and values seen through reflection\<close>

text \<open>
  The library is driven by Go's \<^verbatim>\<open>reflect\<close> package. A \<^verbatim>\<open>reflect.Kind\<close> is one of
  27 tags; a \<^verbatim>\<open>reflect.Type\<close> is modelled by its kind, package path, name and the parts
  the code inspects (element and key types, struct fields with their tags).
\<close>

datatype kind =
    KInvalid | KBool
  | KInt | KInt8 | KInt16 | KInt32 | KInt64
  | KUint | KUint8 | KUint16 | KUint32 | KUint64 | KUintptr
  | KFloat32 | KFloat64 | KComplex64 | KComplex128
  | KArray | KChan | KFunc | KInterface | KMap | KPtr | KSlice | KString | KStruct
  | KUnsafePointer

text \<open>
  \<open>Prim k pkg name\<close> is a type of kind \<open>k\<close> whose structure the code never looks into
  (booleans, numbers, strings, pointers, channels, functions, interfaces); slices, maps,
  arrays and structs have constructors of their own. A struct field carries its name,
  whether it is exported, and its tag as the list of key/value pairs that
  \<^verbatim>\<open>StructTag.Lookup\<close> reads.
\<close>

datatype gotype =
    Prim kind string string
  | SliceT string string gotype
  | ArrayT string string nat gotype
  | MapT string string gotype gotype
  | StructT string string "sfield list"
and sfield =
    SField (Name: string) (exported: bool) (Tag: "(string \<times> string) list") (Type: gotype)

fun Kind :: "gotype \<Rightarrow> kind" where
  "Kind (Prim k _ _) = k"
| "Kind (SliceT _ _ _) = KSlice"
| "Kind (ArrayT _ _ _ _) = KArray"
| "Kind (MapT _ _ _ _) = KMap"
| "Kind (StructT _ _ _) = KStruct"

fun PkgPath :: "gotype \<Rightarrow> string" where
  "PkgPath (Prim _ p _) = p"
| "PkgPath (SliceT p _ _) = p"
| "PkgPath (ArrayT p _ _ _) = p"
| "PkgPath (MapT p _ _ _) = p"
| "PkgPath (StructT p _ _) = p"

fun TypeName :: "gotype \<Rightarrow> string" where
  "TypeName (Prim _ _ n) = n"
| "TypeName (SliceT _ n _) = n"
| "TypeName (ArrayT _ n _ _) = n"
| "TypeName (MapT _ n _ _) = n"
| "TypeName (StructT _ n _) = n"

text \<open>\<^verbatim>\<open>Type.Bits()\<close> on a 64-bit platform.\<close>

definition IntSize :: nat where
  "IntSize = 64"

fun Bits :: "kind \<Rightarrow> nat" where
  "Bits KInt = IntSize"
| "Bits KInt8 = 8"
| "Bits KInt16 = 16"
| "Bits KInt32 = 32"
| "Bits KInt64 = 64"
| "Bits KUint = IntSize"
| "Bits KUint8 = 8"
| "Bits KUint16 = 16"
| "Bits KUint32 = 32"
| "Bits KUint64 = 64"
| "Bits KUintptr = IntSize"
| "Bits KFloat32 = 32"
| "Bits KFloat64 = 64"
| "Bits KComplex64 = 64"
| "Bits KComplex128 = 128"
| "Bits _ = 0"

text \<open>
  Values. Signed and unsigned integers are kept as mathematical integers within the range
  of their kind; a float is kept as the bit pattern \<^verbatim>\<open>math.Float64bits\<close> returns, which
  is all the code ever asks of it. \<open>VNil\<close> is the nil value of a channel, function,
  interface, map, pointer or slice, \<open>VRef\<close> a non-nil pointer, channel, function or
  interface, which the code never looks into.
\<close>

datatype goval =
    VBool bool
  | VInt int
  | VUint nat
  | VFloat "64 word"
  | VComplex "64 word" "64 word"
  | VString string
  | VSlice "goval list"
  | VArray "goval list"
  | VMap "(goval \<times> goval) list"
  | VStruct "goval list"
  | VNil
  | VRef nat

text \<open>The errors the library and the standard functions it calls return.\<close>

datatype numerr = ErrSyntax | ErrRange | ErrBase nat | ErrBitSize nat

datatype error =
    WrongType kind
  | RequiredNotProvided string
  | UnsupportedType string string
  | InvalidMapItem string
  | NumError string string numerr
  | ForeignError string

text \<open>
  What lies outside the repository and is not modelled in full is a parameter: the
  Unicode paths of the \<^verbatim>\<open>strings\<close> functions (taken only on input with a byte
  \<open>\<ge> 0x80\<close>, or an empty separator), the float, duration and time parsers, and the
  \<^verbatim>\<open>Setter\<close> implementations of the caller's types. A setter receives the raw string and
  the current value of the field and returns its error and the value it leaves behind.
\<close>

record golib =
  TrimFuncSpace :: "string \<Rightarrow> string"
  MapToUpper :: "string \<Rightarrow> string"
  MapToLower :: "string \<Rightarrow> string"
  explode :: "string \<Rightarrow> string list"
  ParseFloat :: "string \<Rightarrow> nat \<Rightarrow> 64 word \<times> error option"
  ParseDuration :: "string \<Rightarrow> int \<times> error option"
  TimeParse :: "string \<Rightarrow> string \<Rightarrow> goval \<times> error option"
  SetValue :: "gotype \<Rightarrow> (string \<Rightarrow> goval \<Rightarrow> error option \<times> goval) option"

section \<open>The functions of \<^verbatim>\<open>strings\<close> the library calls\<close>

definition byte :: "char \<Rightarrow> nat" where
  "byte c = of_char c"

definition asciiSpace :: "char \<Rightarrow> bool" where
  "asciiSpace c = (byte c \<in> {9, 10, 11, 12, 13, 32})"

fun trimStart :: "golib \<Rightarrow> string \<Rightarrow> string + string" where
  "trimStart L [] = Inr []"
| "trimStart L (c # cs) =
     (if byte c \<ge> 128 then Inl (TrimFuncSpace L (c # cs))
      else if asciiSpace c then trimStart L cs
      else Inr (c # cs))"

fun trimStop :: "golib \<Rightarrow> string \<Rightarrow> string" where
  "trimStop L [] = []"
| "trimStop L (c # cs) =
     (if byte c \<ge> 128 then TrimFuncSpace L (rev (c # cs))
      else if asciiSpace c then trimStop L cs
      else rev (c # cs))"

text \<open>
  \<^verbatim>\<open>strings.TrimSpace\<close>: the ASCII scan from the start, then from the end (on the
  reversed rest), each falling back to the Unicode path at the first byte \<open>\<ge> 0x80\<close>.
\<close>

definition TrimSpace :: "golib \<Rightarrow> string \<Rightarrow> string" where
  "TrimSpace L s = (case trimStart L s of Inl r \<Rightarrow> r | Inr rest \<Rightarrow> trimStop L (rev rest))"

definition upperASCII :: "char \<Rightarrow> char" where
  "upperASCII c = (if 97 \<le> byte c \<and> byte c \<le> 122 then char_of (byte c - 32) else c)"

definition lowerASCII :: "char \<Rightarrow> char" where
  "lowerASCII c = (if 65 \<le> byte c \<and> byte c \<le> 90 then char_of (byte c + 32) else c)"

definition ToUpper :: "golib \<Rightarrow> string \<Rightarrow> string" where
  "ToUpper L s = (if list_all (\<lambda>c. byte c < 128) s then map upperASCII s else MapToUpper L s)"

definition ToLower :: "golib \<Rightarrow> string \<Rightarrow> string" where
  "ToLower L s = (if list_all (\<lambda>c. byte c < 128) s then map lowerASCII s else MapToLower L s)"

definition HasSuffix :: "string \<Rightarrow> string \<Rightarrow> bool" where
  "HasSuffix s suf = suffix suf s"

text \<open>\<^verbatim>\<open>strings.Index\<close>: the first position where \<open>sep\<close> starts, if any.\<close>

fun Index :: "string \<Rightarrow> string \<Rightarrow> nat option" where
  "Index [] sep = (if sep = [] then Some 0 else None)"
| "Index (c # cs) sep =
     (if prefix sep (c # cs) then Some 0 else map_option Suc (Index cs sep))"

lemma Index_bound: "Index s sep = Some m \<Longrightarrow> m + length sep \<le> length s"
proof (induction s arbitrary: m)
  case Nil
  then show ?case by (simp split: if_splits)
next
  case (Cons c cs)
  show ?case
  proof (cases "prefix sep (c # cs)")
    case True
    with Cons.prems prefix_length_le [OF True] show ?thesis by simp
  next
    case False
    with Cons.prems obtain k where "Index cs sep = Some k" "m = Suc k" by auto
    with Cons.IH show ?thesis by fastforce
  qed
qed

text \<open>
  \<^verbatim>\<open>strings.Split\<close> with a non-empty separator cuts at each first occurrence in what is
  left; with an empty separator it explodes the string into UTF-8 sequences.
\<close>

function splitLoop :: "string \<Rightarrow> string \<Rightarrow> string list" where
  "splitLoop s sep =
     (if sep = [] then [s]
      else case Index s sep of
             None \<Rightarrow> [s]
           | Some m \<Rightarrow> take m s # splitLoop (drop (m + length sep) s) sep)"
  by pat_completeness auto
termination
proof (relation "measure (\<lambda>(s, sep). length s)")
  show "wf (measure (\<lambda>(s, sep). length s))" by simp
next
  fix s sep :: string and m
  assume "sep \<noteq> []" "Index s sep = Some m"
  then have "m + length sep \<le> length s" "0 < length sep"
    by (simp_all add: Index_bound)
  then show "((drop (m + length sep) s, sep), (s, sep)) \<in> measure (\<lambda>(s, sep). length s)"
    by (simp del: length_greater_0_conv)
qed

declare splitLoop.simps [simp del]

definition Split :: "golib \<Rightarrow> string \<Rightarrow> string \<Rightarrow> string list" where
  "Split L s sep = (if sep = [] then explode L s else splitLoop s sep)"

text \<open>\<^verbatim>\<open>strings.SplitN(s, sep, 2)\<close> with a non-empty separator: one cut at most.\<close>

definition SplitN2 :: "string \<Rightarrow> string \<Rightarrow> string list" where
  "SplitN2 s sep =
     (case Index s sep of None \<Rightarrow> [s] | Some m \<Rightarrow> [take m s, drop (m + length sep) s])"

text \<open>\<^verbatim>\<open>strings.ReplaceAll(s, old, new)\<close> for a one-byte \<open>old\<close>, the only use here.\<close>

definition ReplaceAll :: "string \<Rightarrow> char \<Rightarrow> char \<Rightarrow> string" where
  "ReplaceAll s old new = map (\<lambda>c. if c = old then new else c) s"

section \<open>The functions of \<^verbatim>\<open>strconv\<close> the library calls\<close>

definition syntaxError :: "string \<Rightarrow> string \<Rightarrow> error" where
  "syntaxError fn str = NumError fn str ErrSyntax"

definition rangeError :: "string \<Rightarrow> string \<Rightarrow> error" where
  "rangeError fn str = NumError fn str ErrRange"

definition ParseBool :: "string \<Rightarrow> bool \<times> error option" where
  "ParseBool str =
     (if str \<in> {''1'', ''t'', ''T'', ''true'', ''TRUE'', ''True''} then (True, None)
      else if str \<in> {''0'', ''f'', ''F'', ''false'', ''FALSE'', ''False''} then (False, None)
      else (False, Some (syntaxError ''ParseBool'' str)))"

text \<open>\<^verbatim>\<open>lower(c)\<close> is \<^verbatim>\<open>c | ('x' - 'X')\<close>: bit 5 set.\<close>

fun lower :: "char \<Rightarrow> char" where
  "lower (Char b0 b1 b2 b3 b4 b5 b6 b7) = Char b0 b1 b2 b3 b4 True b6 b7"

definition isDigit :: "char \<Rightarrow> bool" where
  "isDigit c = (48 \<le> byte c \<and> byte c \<le> 57)"

definition isLetter :: "char \<Rightarrow> bool" where
  "isLetter c = (97 \<le> byte (lower c) \<and> byte (lower c) \<le> 122)"

text \<open>
  \<^verbatim>\<open>underscoreOK\<close>: underscores only between digits or after the base prefix. \<open>saw\<close>
  is the last character class seen: \<open>^\<close> at the beginning, \<open>0\<close> for a digit or the base
  prefix, \<open>_\<close> for an underscore, \<open>!\<close> for anything else.
\<close>

fun underscoreLoop :: "bool \<Rightarrow> char \<Rightarrow> string \<Rightarrow> bool" where
  "underscoreLoop hex saw [] = (saw \<noteq> CHR ''_'')"
| "underscoreLoop hex saw (c # cs) =
     (if isDigit c \<or> hex \<and> 97 \<le> byte (lower c) \<and> byte (lower c) \<le> 102
        then underscoreLoop hex (CHR ''0'') cs
      else if c = CHR ''_''
        then (if saw \<noteq> CHR ''0'' then False else underscoreLoop hex (CHR ''_'') cs)
      else if saw = CHR ''_'' then False
      else underscoreLoop hex (CHR ''!'') cs)"

definition underscoreOK :: "string \<Rightarrow> bool" where
  "underscoreOK s0 =
     (let s = (if length s0 \<ge> 1 \<and> (hd s0 = CHR ''-'' \<or> hd s0 = CHR ''+'') then tl s0 else s0)
      in if length s \<ge> 2 \<and> s ! 0 = CHR ''0''
            \<and> (lower (s ! 1) = CHR ''b'' \<or> lower (s ! 1) = CHR ''o'' \<or> lower (s ! 1) = CHR ''x'')
         then underscoreLoop (lower (s ! 1) = CHR ''x'') (CHR ''0'') (drop 2 s)
         else underscoreLoop False (CHR ''^'') s)"

datatype digits = Digits nat bool | DigitsSyntax | DigitsRange

text \<open>Arithmetic on \<^verbatim>\<open>uint64\<close> wraps around.\<close>

definition mul64 :: "nat \<Rightarrow> nat \<Rightarrow> nat" where
  "mul64 a b = (a * b) mod 2 ^ 64"

definition add64 :: "nat \<Rightarrow> nat \<Rightarrow> nat" where
  "add64 a b = (a + b) mod 2 ^ 64"

text \<open>The value of a digit character, if it is one: \<open>0\<close>-\<open>9\<close>, then letters from 10.\<close>

definition digitVal :: "char \<Rightarrow> nat option" where
  "digitVal c =
     (if isDigit c then Some (byte c - 48)
      else if isLetter c then Some (byte (lower c) - 97 + 10)
      else None)"

text \<open>The digit loop of \<^verbatim>\<open>ParseUint\<close>; \<open>n\<close> is a \<^verbatim>\<open>uint64\<close>.\<close>

fun digitLoop :: "nat \<Rightarrow> bool \<Rightarrow> nat \<Rightarrow> nat \<Rightarrow> string \<Rightarrow> nat \<Rightarrow> bool \<Rightarrow> digits" where
  "digitLoop base base0 cutoff maxVal [] n underscores = Digits n underscores"
| "digitLoop base base0 cutoff maxVal (c # cs) n underscores =
     (if c = CHR ''_'' \<and> base0 then digitLoop base base0 cutoff maxVal cs n True
      else
        case digitVal c of
          None \<Rightarrow> DigitsSyntax
        | Some d \<Rightarrow>
            if d \<ge> base then DigitsSyntax
            else if n \<ge> cutoff then DigitsRange
            else if add64 (mul64 n base) d < mul64 n base \<or> add64 (mul64 n base) d > maxVal
              then DigitsRange
            else digitLoop base base0 cutoff maxVal cs (add64 (mul64 n base) d) underscores)"

definition maxUint64 :: nat where
  "maxUint64 = 2 ^ 64 - 1"

definition basePrefix :: "string \<Rightarrow> nat \<times> string" where
  "basePrefix s =
     (if hd s = CHR ''0'' then
        (if length s \<ge> 3 \<and> lower (s ! 1) = CHR ''b'' then (2, drop 2 s)
         else if length s \<ge> 3 \<and> lower (s ! 1) = CHR ''o'' then (8, drop 2 s)
         else if length s \<ge> 3 \<and> lower (s ! 1) = CHR ''x'' then (16, drop 2 s)
         else (8, drop 1 s))
      else (10, s))"

definition ParseUint :: "string \<Rightarrow> nat \<Rightarrow> nat \<Rightarrow> nat \<times> error option" where
  "ParseUint s0 base0 bitSize0 =
     (if s0 = [] then (0, Some (syntaxError ''ParseUint'' s0))
      else if \<not> (2 \<le> base0 \<and> base0 \<le> 36) \<and> base0 \<noteq> 0
        then (0, Some (NumError ''ParseUint'' s0 (ErrBase base0)))
      else
        let (base, s) = (if base0 = 0 then basePrefix s0 else (base0, s0));
            bitSize = (if bitSize0 = 0 then IntSize else bitSize0)
        in if bitSize > 64 then (0, Some (NumError ''ParseUint'' s0 (ErrBitSize bitSize)))
           else
             let cutoff = maxUint64 div base + 1;
                 maxVal = 2 ^ bitSize - 1
             in case digitLoop base (base0 = 0) cutoff maxVal s 0 False of
                  DigitsSyntax \<Rightarrow> (0, Some (syntaxError ''ParseUint'' s0))
                | DigitsRange \<Rightarrow> (maxVal, Some (rangeError ''ParseUint'' s0))
                | Digits n underscores \<Rightarrow>
                    if underscores \<and> \<not> underscoreOK s0
                    then (0, Some (syntaxError ''ParseUint'' s0))
                    else (n, None))"

definition isErrRange :: "error \<Rightarrow> bool" where
  "isErrRange e = (case e of NumError _ _ ErrRange \<Rightarrow> True | _ \<Rightarrow> False)"

definition withFunc :: "string \<Rightarrow> string \<Rightarrow> error \<Rightarrow> error" where
  "withFunc fn num e = (case e of NumError _ _ k \<Rightarrow> NumError fn num k | _ \<Rightarrow> e)"

text \<open>
  \<^verbatim>\<open>ParseInt\<close>: sign, then \<^verbatim>\<open>ParseUint\<close>, then the range of the signed type. The result
  is an \<^verbatim>\<open>int64\<close>; the conversion from \<^verbatim>\<open>uint64\<close> and the negation wrap.
\<close>

definition int64 :: "nat \<Rightarrow> int" where
  "int64 un = (if un mod 2 ^ 64 < 2 ^ 63 then int (un mod 2 ^ 64) else int (un mod 2 ^ 64) - 2 ^ 64)"

definition neg64 :: "int \<Rightarrow> int" where
  "neg64 n = (if n = - (2 ^ 63) then n else - n)"

definition ParseInt :: "string \<Rightarrow> nat \<Rightarrow> nat \<Rightarrow> int \<times> error option" where
  "ParseInt s0 base bitSize0 =
     (if s0 = [] then (0, Some (syntaxError ''ParseInt'' s0))
      else
        let neg = (hd s0 = CHR ''-'');
            s = (if hd s0 = CHR ''+'' \<or> hd s0 = CHR ''-'' then tl s0 else s0);
            (un, err) = ParseUint s base bitSize0
        in if err \<noteq> None \<and> \<not> isErrRange (the err)
             then (0, Some (withFunc ''ParseInt'' s0 (the err)))
           else
             let bitSize = (if bitSize0 = 0 then IntSize else bitSize0);
                 cutoff = (2 ^ (bitSize - 1)) mod 2 ^ 64
             in if \<not> neg \<and> un \<ge> cutoff then (int64 (cutoff - 1), Some (rangeError ''ParseInt'' s0))
                else if neg \<and> un > cutoff then (neg64 (int64 cutoff), Some (rangeError ''ParseInt'' s0))
                else (if neg then neg64 (int64 un) else int64 un, None))"

section \<open>Zero values, \<^verbatim>\<open>isZero\<close> and map keys\<close>

fun zeroOf :: "gotype \<Rightarrow> goval"
  and zeroOfField :: "sfield \<Rightarrow> goval"
  and zeroOfFields :: "sfield list \<Rightarrow> goval list" where
  "zeroOf (Prim k p n) =
     (if k = KBool then VBool False
      else if k \<in> {KInt, KInt8, KInt16, KInt32, KInt64} then VInt 0
      else if k \<in> {KUint, KUint8, KUint16, KUint32, KUint64, KUintptr} then VUint 0
      else if k \<in> {KFloat32, KFloat64} then VFloat 0
      else if k \<in> {KComplex64, KComplex128} then VComplex 0 0
      else if k = KString then VString []
      else VNil)"
| "zeroOf (SliceT p n e) = VNil"
| "zeroOf (ArrayT p n len e) = VArray (replicate len (zeroOf e))"
| "zeroOf (MapT p n k e) = VNil"
| "zeroOf (StructT p n fs) = VStruct (zeroOfFields fs)"
| "zeroOfField (SField n ex tag t) = zeroOf t"
| "zeroOfFields [] = []"
| "zeroOfFields (f # fs) = zeroOfField f # zeroOfFields fs"

text \<open>
  \<^verbatim>\<open>isZero\<close> switches on the kind of the value; the constructors of \<open>goval\<close> are the
  groups of kinds of that switch. Its \<^verbatim>\<open>default\<close> branch (kind \<^verbatim>\<open>Invalid\<close>) panics and is
  not reachable on the value of a struct field.
\<close>

fun isZero :: "goval \<Rightarrow> bool" where
  "isZero (VBool b) = (\<not> b)"
| "isZero (VInt i) = (i = 0)"
| "isZero (VUint u) = (u = 0)"
| "isZero (VFloat f) = (f = 0)"
| "isZero (VComplex re im) = (re = 0 \<and> im = 0)"
| "isZero (VArray xs) = list_all isZero xs"
| "isZero VNil = True"
| "isZero (VRef a) = False"
| "isZero (VSlice xs) = False"
| "isZero (VMap m) = False"
| "isZero (VString s) = (length s = 0)"
| "isZero (VStruct xs) = list_all isZero xs"

text \<open>
  Go's \<^verbatim>\<open>==\<close>, which decides whether two map keys are the same key. On floats a NaN
  equals nothing, itself included, and the two zeros are equal; a complex number is
  compared part by part, a struct field by field, an array element by element; everything
  else that can be a key (booleans, integers, strings, pointers, channels) is compared by
  value. Slices, maps and functions cannot be compared and are never keys.
\<close>

definition isNaN :: "64 word \<Rightarrow> bool" where
  "isNaN w = (w AND 0x7FF0000000000000 = 0x7FF0000000000000 \<and> w AND 0x000FFFFFFFFFFFFF \<noteq> 0)"

definition floatEq :: "64 word \<Rightarrow> 64 word \<Rightarrow> bool" where
  "floatEq x y =
     (\<not> isNaN x \<and> \<not> isNaN y
      \<and> (x = y \<or> x AND 0x7FFFFFFFFFFFFFFF = 0 \<and> y AND 0x7FFFFFFFFFFFFFFF = 0))"

fun goEq :: "goval \<Rightarrow> goval \<Rightarrow> bool"
  and goEqs :: "goval list \<Rightarrow> goval list \<Rightarrow> bool" where
  "goEq (VFloat x) b = (case b of VFloat y \<Rightarrow> floatEq x y | _ \<Rightarrow> False)"
| "goEq (VComplex re im) b =
     (case b of VComplex re' im' \<Rightarrow> floatEq re re' \<and> floatEq im im' | _ \<Rightarrow> False)"
| "goEq (VStruct xs) b = (case b of VStruct ys \<Rightarrow> goEqs xs ys | _ \<Rightarrow> False)"
| "goEq (VArray xs) b = (case b of VArray ys \<Rightarrow> goEqs xs ys | _ \<Rightarrow> False)"
| "goEq a b = (a = b)"
| "goEqs [] ys = (ys = [])"
| "goEqs (x # xs) ys = (case ys of [] \<Rightarrow> False | y # ys' \<Rightarrow> goEq x y \<and> goEqs xs ys')"

text \<open>\<^verbatim>\<open>Value.SetMapIndex\<close>: the entry of an equal key is replaced, a new key is added.\<close>

fun SetMapIndex :: "goval \<Rightarrow> goval \<Rightarrow> (goval \<times> goval) list \<Rightarrow> (goval \<times> goval) list" where
  "SetMapIndex k v [] = [(k, v)]"
| "SetMapIndex k v ((k', v') # m) =
     (if goEq k' k then (k, v) # m else (k', v') # SetMapIndex k v m)"


section \<open>\<^verbatim>\<open>parseValue\<close>, \<^verbatim>\<open>parseSlice\<close> and \<^verbatim>\<open>parseMap\<close>\<close>

text \<open>
  A call returns \<^verbatim>\<open>nil\<close> (\<open>NoError\<close>), returns an error or panics. \<^verbatim>\<open>parseValue\<close> writes into the
  field it is given: the model takes the field's type and current value and returns the
  outcome with the value the field holds afterwards. \<^verbatim>\<open>parseSlice\<close> and \<^verbatim>\<open>parseMap\<close>
  return a fresh \<^verbatim>\<open>reflect.Value\<close>, a value with its type.
\<close>

datatype outcome = NoError | Failed error | Panicked string

datatype 'a result = Ok 'a | Err error | Panic string

definition uint8T :: gotype where
  "uint8T = Prim KUint8 [] ''uint8''"

definition RFC3339 :: string where
  "RFC3339 = ''2006-01-02T15:04:05Z07:00''"

text \<open>
  \<^verbatim>\<open>Value.Set\<close> panics unless the value's type is assignable to the field's: the types
  are identical, or their underlying types are and one of the two is unnamed.
\<close>

fun underlying :: "gotype \<Rightarrow> gotype" where
  "underlying (Prim k p n) = Prim k p n"
| "underlying (SliceT p n e) = SliceT [] [] e"
| "underlying (ArrayT p n len e) = ArrayT [] [] len e"
| "underlying (MapT p n k e) = MapT [] [] k e"
| "underlying (StructT p n fs) = StructT [] [] fs"

definition assignableTo :: "gotype \<Rightarrow> gotype \<Rightarrow> bool" where
  "assignableTo V T =
     (V = T \<or> underlying V = underlying T \<and> (TypeName V = [] \<or> TypeName T = []))"

text \<open>
  The switch of \<^verbatim>\<open>parseValue\<close> is on the kind of the field's type, so its cases exclude
  one another. The cases that do not call \<^verbatim>\<open>parseValue\<close> again are gathered here: string,
  boolean, the signed integers (with \<^verbatim>\<open>time.Duration\<close>), the unsigned integers, the floats,
  and the \<^verbatim>\<open>default\<close> branch. Each \<^verbatim>\<open>return err\<close> comes before the field is written, so
  an error leaves the field as it was. \<^verbatim>\<open>SetInt\<close> and \<^verbatim>\<open>SetUint\<close> store a number that
  \<^verbatim>\<open>ParseInt\<close> and \<^verbatim>\<open>ParseUint\<close> have already checked against the width of the field.
\<close>

definition parseScalar :: "golib \<Rightarrow> gotype \<Rightarrow> string \<Rightarrow> goval \<Rightarrow> outcome \<times> goval" where
  "parseScalar L valueType val field =
     (let k = Kind valueType in
      if k = KString then (NoError, VString val)
      else if k = KBool then
        (case ParseBool val of
           (b, Some err) \<Rightarrow> (Failed err, field)
         | (b, None) \<Rightarrow> (NoError, VBool b))
      else if k \<in> {KInt, KInt8, KInt16, KInt32, KInt64} then
        (if k = KInt64 \<and> PkgPath valueType = ''time'' \<and> TypeName valueType = ''Duration'' then
           (case ParseDuration L val of
              (d, Some err) \<Rightarrow> (Failed err, field)
            | (d, None) \<Rightarrow> (NoError, VInt d))
         else
           (case ParseInt val 0 (Bits k) of
              (number, Some err) \<Rightarrow> (Failed err, field)
            | (number, None) \<Rightarrow> (NoError, VInt number)))
      else if k \<in> {KUint, KUint8, KUint16, KUint32, KUint64} then
        (case ParseUint val 0 (Bits k) of
           (number, Some err) \<Rightarrow> (Failed err, field)
         | (number, None) \<Rightarrow> (NoError, VUint number))
      else if k \<in> {KFloat32, KFloat64} then
        (case ParseFloat L val (Bits k) of
           (number, Some err) \<Rightarrow> (Failed err, field)
         | (number, None) \<Rightarrow> (NoError, VFloat number))
      else (Failed (UnsupportedType (PkgPath valueType) (TypeName valueType)), field))"

text \<open>The \<^verbatim>\<open>time.Time\<close> case, and the struct that is not \<^verbatim>\<open>time.Time\<close>.\<close>

definition parseStruct :: "golib \<Rightarrow> gotype \<Rightarrow> string \<Rightarrow> string option \<Rightarrow> goval \<Rightarrow> outcome \<times> goval" where
  "parseStruct L valueType val layout field =
     (if PkgPath valueType = ''time'' \<and> TypeName valueType = ''Time'' then
        (let l = (case layout of Some l' \<Rightarrow> l' | None \<Rightarrow> RFC3339) in
         case TimeParse L l val of
           (t, Some err) \<Rightarrow> (Failed err, field)
         | (t, None) \<Rightarrow> (NoError, t))
      else (NoError, field))"

text \<open>\<^verbatim>\<open>field.Set(v)\<close> for a value \<open>v\<close> of type \<open>t\<close>.\<close>

definition setField :: "gotype \<Rightarrow> gotype \<times> goval \<Rightarrow> goval \<Rightarrow> outcome \<times> goval" where
  "setField valueType tv field =
     (if assignableTo (fst tv) valueType then (NoError, snd tv)
      else (Panicked ''reflect.Set: value is not assignable to type'', field))"

text \<open>
  The type assertion \<^verbatim>\<open>.(Setter)\<close>, tried on the field's value and then on its address
  (\<^verbatim>\<open>CanInterface\<close> holds for every field that reaches \<^verbatim>\<open>parseValue\<close>: a settable
  field, or a fresh slice element, map key or map value). No method is declared on a type
  without a package path, so only a defined type can satisfy the interface, or an unnamed
  struct, pointer or interface through what it embeds, points to or holds.
\<close>

definition asSetter :: "golib \<Rightarrow> gotype \<Rightarrow> (string \<Rightarrow> goval \<Rightarrow> error option \<times> goval) option" where
  "asSetter L t =
     (if PkgPath t = [] \<and> Kind t \<notin> {KStruct, KPtr, KInterface} then None else SetValue L t)"

function parseValue :: "golib \<Rightarrow> gotype \<Rightarrow> string \<Rightarrow> string \<Rightarrow> string option \<Rightarrow> goval \<Rightarrow> outcome \<times> goval"
  and parseSlice :: "golib \<Rightarrow> gotype \<Rightarrow> string \<Rightarrow> string \<Rightarrow> string option \<Rightarrow> (gotype \<times> goval) result"
  and sliceLoop :: "golib \<Rightarrow> gotype \<Rightarrow> string list \<Rightarrow> string \<Rightarrow> string option \<Rightarrow> goval list result"
  and parseMap :: "golib \<Rightarrow> gotype \<Rightarrow> string \<Rightarrow> string \<Rightarrow> string option \<Rightarrow> (gotype \<times> goval) result"
  and mapLoop :: "golib \<Rightarrow> gotype \<Rightarrow> gotype \<Rightarrow> string list \<Rightarrow> string \<Rightarrow> string option
                    \<Rightarrow> (goval \<times> goval) list \<Rightarrow> (goval \<times> goval) list result" where
  "parseValue L valueType val sep layout field =
     (case asSetter L valueType of
        Some cs \<Rightarrow>
          (case cs val field of (None, v) \<Rightarrow> (NoError, v) | (Some err, v) \<Rightarrow> (Failed err, v))
      | None \<Rightarrow>
          if Kind valueType = KSlice then
            (case parseSlice L valueType val sep layout of
               Err err \<Rightarrow> (Failed err, field)
             | Panic msg \<Rightarrow> (Panicked msg, field)
             | Ok sliceValue \<Rightarrow> setField valueType sliceValue field)
          else if Kind valueType = KMap then
            (case parseMap L valueType val sep layout of
               Err err \<Rightarrow> (Failed err, field)
             | Panic msg \<Rightarrow> (Panicked msg, field)
             | Ok mapValue \<Rightarrow> setField valueType mapValue field)
          else if Kind valueType = KStruct then parseStruct L valueType val layout field
          else parseScalar L valueType val field)"
| "parseSlice L valueType val sep layout =
     (case valueType of
        SliceT p n e \<Rightarrow>
          if Kind e = KUint8 then Ok (SliceT [] [] uint8T, VSlice (map (\<lambda>c. VUint (byte c)) val))
          else if length (TrimSpace L val) \<noteq> 0 then
            (case sliceLoop L e (Split L val sep) sep layout of
               Ok xs \<Rightarrow> Ok (valueType, VSlice xs)
             | Err err \<Rightarrow> Err err
             | Panic msg \<Rightarrow> Panic msg)
          else Ok (valueType, VSlice [])
      | _ \<Rightarrow> Panic ''reflect.MakeSlice of non-slice type'')"
| "sliceLoop L e [] sep layout = Ok []"
| "sliceLoop L e (v # vs) sep layout =
     (case parseValue L e v sep layout (zeroOf e) of
        (Failed err, x) \<Rightarrow> Err err
      | (Panicked msg, x) \<Rightarrow> Panic msg
      | (NoError, x) \<Rightarrow>
          (case sliceLoop L e vs sep layout of
             Ok xs \<Rightarrow> Ok (x # xs)
           | Err err \<Rightarrow> Err err
           | Panic msg \<Rightarrow> Panic msg))"
| "parseMap L valueType val sep layout =
     (case valueType of
        MapT p n kt vt \<Rightarrow>
          if length (TrimSpace L val) \<noteq> 0 then
            (case mapLoop L kt vt (Split L val sep) sep layout [] of
               Ok m \<Rightarrow> Ok (valueType, VMap m)
             | Err err \<Rightarrow> Err err
             | Panic msg \<Rightarrow> Panic msg)
          else Ok (valueType, VMap [])
      | _ \<Rightarrow> Panic ''reflect.MakeMap of non-map type'')"
| "mapLoop L kt vt [] sep layout m = Ok m"
| "mapLoop L kt vt (pair # pairs) sep layout m =
     (if length (SplitN2 pair '':'') \<noteq> 2 then Err (InvalidMapItem pair)
      else
        case parseValue L kt (SplitN2 pair '':'' ! 0) sep layout (zeroOf kt) of
          (Failed err, k) \<Rightarrow> Err err
        | (Panicked msg, k) \<Rightarrow> Panic msg
        | (NoError, k) \<Rightarrow>
            (case parseValue L vt (SplitN2 pair '':'' ! 1) sep layout (zeroOf vt) of
               (Failed err, v) \<Rightarrow> Err err
             | (Panicked msg, v) \<Rightarrow> Panic msg
             | (NoError, v) \<Rightarrow> mapLoop L kt vt pairs sep layout (SetMapIndex k v m)))"
  by pat_completeness auto
termination
proof (relation "inv_image (less_than <*lex*> less_than <*lex*> less_than)
    (\<lambda>x. case x of
        Inl (Inl (L, t, r)) \<Rightarrow> (size t, 1::nat, 0::nat)
      | Inl (Inr (L, t, r)) \<Rightarrow> (size t, 0, 0)
      | Inr (Inl (L, e, vs, r)) \<Rightarrow> (size e, 2, length vs)
      | Inr (Inr (Inl (L, t, r))) \<Rightarrow> (size t, 0, 0)
      | Inr (Inr (Inr (L, kt, vt, ps, r))) \<Rightarrow> (size kt + size vt, 2, length ps))", goal_cases)
  case 1
  show ?case by (intro wf_inv_image wf_lex_prod wf_less_than)
qed auto

declare parseValue.simps [simp del] parseSlice.simps [simp del] parseMap.simps [simp del]

section \<open>Struct metadata\<close>

definition DefaultSeparator :: string where
  "DefaultSeparator = '',''"

definition TagEnv :: string where
  "TagEnv = ''env''"

definition TagEnvLayout :: string where
  "TagEnvLayout = ''env-layout''"

definition TagEnvDefault :: string where
  "TagEnvDefault = ''env-default''"

definition TagEnvSeparator :: string where
  "TagEnvSeparator = ''env-separator''"

definition TagEnvDescription :: string where
  "TagEnvDescription = ''env-description''"

definition TagEnvRequired :: string where
  "TagEnvRequired = ''env-required''"

definition TagEnvPrefix :: string where
  "TagEnvPrefix = ''env-prefix''"

text \<open>
  The caller's record lives in a store: the address of a field is the sequence of field
  indices that leads to it from the root. A \<^verbatim>\<open>reflect.Value\<close> of a field is its type
  with its address; an \<^verbatim>\<open>interface{}\<close> handed to the library is nil, a pointer (nil, or
  to an address) or a value that is not a pointer.
\<close>

type_synonym addr = "nat list"

type_synonym store = "addr \<Rightarrow> goval"

datatype iface = NilInterface | PtrTo gotype "addr option" | Direct gotype

record structMeta =
  envList :: "string list"
  fieldName :: string
  fieldValue :: "gotype \<times> addr"
  defValue :: "string option"
  layout :: "string option"
  separator :: string
  description :: string
  required :: bool

record cfgNode =
  Val :: iface
  Prefix :: string

definition Lookup :: "(string \<times> string) list \<Rightarrow> string \<Rightarrow> string option" where
  "Lookup tag key = map_of tag key"

definition Get :: "(string \<times> string) list \<Rightarrow> string \<Rightarrow> string" where
  "Get tag key = (case Lookup tag key of Some v \<Rightarrow> v | None \<Rightarrow> [])"

text \<open>\<^verbatim>\<open>reflect.TypeOf(time.Time{})\<close>.\<close>

definition timeTime :: gotype where
  "timeTime = StructT ''time'' ''Time''
     [SField ''wall'' False [] (Prim KUint64 [] ''uint64''),
      SField ''ext'' False [] (Prim KInt64 [] ''int64''),
      SField ''loc'' False [] (Prim KPtr [] [])]"

text \<open>
  One iteration of the loop over the fields of the struct \<open>s\<close>, whose address is \<open>saddr\<close>
  when \<open>s\<close> is addressable: the field is pushed on the stack, skipped, or described.
  \<^verbatim>\<open>Addr\<close> panics on a value that is not addressable, \<^verbatim>\<open>Interface\<close> on a value obtained
  from an unexported field; \<^verbatim>\<open>CanSet\<close> holds for an exported field of an addressable
  struct (a struct on the stack was never reached through an unexported field).
\<close>

datatype fieldStep = Push cfgNode | Skip | Describe structMeta | FieldPanic string

definition readField :: "golib \<Rightarrow> string \<Rightarrow> addr option \<Rightarrow> nat \<Rightarrow> sfield \<Rightarrow> fieldStep" where
  "readField L sPrefix saddr idx fType =
     (if Kind (Type fType) = KStruct \<and> Type fType \<noteq> timeTime then
        (case saddr of
           None \<Rightarrow> FieldPanic ''reflect.Value.Addr of unaddressable value''
         | Some a \<Rightarrow>
             if \<not> exported fType
             then FieldPanic ''reflect.Value.Interface: cannot return value obtained from unexported field or method''
             else Push \<lparr>Val = PtrTo (Type fType) (Some (a @ [idx])),
                        Prefix = sPrefix @ Get (Tag fType) TagEnvPrefix\<rparr>)
      else
        (case saddr of
           None \<Rightarrow> Skip
         | Some a \<Rightarrow>
             if \<not> exported fType then Skip
             else Describe
               \<lparr>envList =
                  (case Lookup (Tag fType) TagEnv of
                     None \<Rightarrow> []
                   | Some envs \<Rightarrow>
                       if length envs \<noteq> 0
                       then (if sPrefix \<noteq> [] then map (\<lambda>e. sPrefix @ e) (Split L envs DefaultSeparator)
                             else Split L envs DefaultSeparator)
                       else []),
                fieldName = Name fType,
                fieldValue = (Type fType, a @ [idx]),
                defValue = Lookup (Tag fType) TagEnvDefault,
                layout = (if Kind (Type fType) = KStruct then Lookup (Tag fType) TagEnvLayout else None),
                separator =
                  (case Lookup (Tag fType) TagEnvSeparator of Some sep \<Rightarrow> sep | None \<Rightarrow> DefaultSeparator),
                description = Get (Tag fType) TagEnvDescription,
                required = (Lookup (Tag fType) TagEnvRequired \<noteq> None)\<rparr>))"

fun readFields :: "golib \<Rightarrow> string \<Rightarrow> addr option \<Rightarrow> nat \<Rightarrow> sfield list
                     \<Rightarrow> cfgNode list \<Rightarrow> structMeta list \<Rightarrow> (cfgNode list \<times> structMeta list) result" where
  "readFields L sPrefix saddr idx [] cfgStack metas = Ok (cfgStack, metas)"
| "readFields L sPrefix saddr idx (fType # rest) cfgStack metas =
     (case readField L sPrefix saddr idx fType of
        FieldPanic msg \<Rightarrow> Panic msg
      | Skip \<Rightarrow> readFields L sPrefix saddr (idx + 1) rest cfgStack metas
      | Push node \<Rightarrow> readFields L sPrefix saddr (idx + 1) rest (cfgStack @ [node]) metas
      | Describe meta \<Rightarrow> readFields L sPrefix saddr (idx + 1) rest cfgStack (metas @ [meta]))"

text \<open>
  \<^verbatim>\<open>reflect.ValueOf\<close> followed by the unwrapping of a pointer: the type of \<open>s\<close> and its
  address, or nothing for the zero \<^verbatim>\<open>Value\<close> (of kind \<^verbatim>\<open>Invalid\<close>).
\<close>

fun unwrap :: "iface \<Rightarrow> (gotype \<times> addr option) option" where
  "unwrap NilInterface = None"
| "unwrap (PtrTo t None) = None"
| "unwrap (PtrTo t (Some a)) = Some (t, Some a)"
| "unwrap (Direct t) = Some (t, None)"

fun nodeSize :: "cfgNode \<Rightarrow> nat" where
  "nodeSize node = (case unwrap (Val node) of None \<Rightarrow> 1 | Some (t, a) \<Rightarrow> Suc (size t))"

lemma readField_Push_size:
  "readField L sPrefix saddr idx fType = Push node \<Longrightarrow> nodeSize node = Suc (size (Type fType))"
  by (auto simp: readField_def split: if_splits option.splits)

lemma readFields_size:
  "readFields L sPrefix saddr idx fs cfgStack metas = Ok (cfgStack', metas') \<Longrightarrow>
     sum_list (map nodeSize cfgStack') \<le> sum_list (map nodeSize cfgStack) + size_list size fs"
proof (induction fs arbitrary: idx cfgStack metas)
  case Nil
  then show ?case by simp
next
  case (Cons fType rest)
  show ?case
  proof (cases "readField L sPrefix saddr idx fType")
    case (Push node)
    with Cons.prems have "readFields L sPrefix saddr (idx + 1) rest (cfgStack @ [node]) metas = Ok (cfgStack', metas')"
      by simp
    from Cons.IH [OF this] readField_Push_size [OF Push] show ?thesis
      by (cases fType) simp
  next
    case Skip
    with Cons.prems have "readFields L sPrefix saddr (idx + 1) rest cfgStack metas = Ok (cfgStack', metas')"
      by simp
    from Cons.IH [OF this] show ?thesis by simp
  next
    case (Describe meta)
    with Cons.prems have "readFields L sPrefix saddr (idx + 1) rest cfgStack (metas @ [meta]) = Ok (cfgStack', metas')"
      by simp
    from Cons.IH [OF this] show ?thesis by simp
  next
    case (FieldPanic msg)
    with Cons.prems show ?thesis by simp
  qed
qed

text \<open>
  \<^verbatim>\<open>readStructMetadata\<close>: the loop over \<^verbatim>\<open>cfgStack\<close>, which grows while it is walked.
  The first argument of the loop is the part of the stack from index \<open>i\<close> on.
\<close>

function stackLoop :: "golib \<Rightarrow> cfgNode list \<Rightarrow> structMeta list \<Rightarrow> structMeta list result" where
  "stackLoop L [] metas = Ok metas"
| "stackLoop L (node # cfgStack) metas =
     (case unwrap (Val node) of
        None \<Rightarrow> Err (WrongType KInvalid)
      | Some (s, saddr) \<Rightarrow>
          (case s of
             StructT p n fs \<Rightarrow>
               (case readFields L (Prefix node) saddr 0 fs cfgStack metas of
                  Ok (cfgStack', metas') \<Rightarrow> stackLoop L cfgStack' metas'
                | Err err \<Rightarrow> Err err
                | Panic msg \<Rightarrow> Panic msg)
           | _ \<Rightarrow> Err (WrongType (Kind s))))"
  by pat_completeness auto
termination
proof (relation "measure (\<lambda>(L, cfgStack, metas). sum_list (map nodeSize cfgStack))", goal_cases)
  case 1
  show ?case by simp
next
  case (2 L node cfgStack metas x s saddr p n fs r cfgStack' metas')
  then have x: "x = (StructT p n fs, saddr)" and r: "r = (cfgStack', metas')"
    and rf: "readFields L (Prefix node) saddr 0 fs cfgStack metas = Ok (cfgStack', metas')"
    by auto
  from readFields_size [OF rf] x r 2(1) show ?case by simp
qed

definition readStructMetadata :: "golib \<Rightarrow> iface \<Rightarrow> structMeta list result" where
  "readStructMetadata L cfgRoot = stackLoop L [\<lparr>Val = cfgRoot, Prefix = []\<rparr>] []"

section \<open>Applying the sources\<close>

text \<open>\<^verbatim>\<open>parseValue(meta.fieldValue, raw, meta.separator, meta.layout)\<close> on the store.\<close>

definition parseField :: "golib \<Rightarrow> structMeta \<Rightarrow> string \<Rightarrow> store \<Rightarrow> outcome \<times> store" where
  "parseField L meta raw st =
     (case parseValue L (fst (fieldValue meta)) raw (separator meta) (layout meta)
             (st (snd (fieldValue meta))) of
        (r, v) \<Rightarrow> (r, st (snd (fieldValue meta) := v)))"

definition isFieldValueZero :: "structMeta \<Rightarrow> store \<Rightarrow> bool" where
  "isFieldValueZero sm st = isZero (st (snd (fieldValue sm)))"

text \<open>The inner loop of \<^verbatim>\<open>readEnvVars\<close>: the first name of the list that is set.\<close>

fun lookupEnvList :: "(string \<rightharpoonup> string) \<Rightarrow> string \<Rightarrow> string list \<Rightarrow> string option" where
  "lookupEnvList environ pfx [] = None"
| "lookupEnvList environ pfx (env # envs) =
     (case environ (pfx @ env) of
        Some v \<Rightarrow> Some v
      | None \<Rightarrow> lookupEnvList environ pfx envs)"

fun readEnvVars :: "golib \<Rightarrow> (string \<rightharpoonup> string) \<Rightarrow> structMeta list \<Rightarrow> string \<Rightarrow> store
                     \<Rightarrow> outcome \<times> store" where
  "readEnvVars L environ [] pfx st = (NoError, st)"
| "readEnvVars L environ (meta # metaInfo) pfx st =
     (case lookupEnvList environ pfx (envList meta) of
        None \<Rightarrow> readEnvVars L environ metaInfo pfx st
      | Some rawValue \<Rightarrow>
          (case parseField L meta rawValue st of
             (NoError, st') \<Rightarrow> readEnvVars L environ metaInfo pfx st'
           | (err, st') \<Rightarrow> (err, st')))"

fun finalize :: "golib \<Rightarrow> structMeta list \<Rightarrow> store \<Rightarrow> outcome \<times> store" where
  "finalize L [] st = (NoError, st)"
| "finalize L (meta # metaInfo) st =
     (if required meta \<and> isFieldValueZero meta st
      then (Failed (RequiredNotProvided (fieldName meta)), st)
      else if isFieldValueZero meta st \<and> defValue meta \<noteq> None then
        (case parseField L meta (the (defValue meta)) st of
           (NoError, st') \<Rightarrow> finalize L metaInfo st'
         | (err, st') \<Rightarrow> (err, st'))
      else finalize L metaInfo st)"

definition toPrefix :: "golib \<Rightarrow> string \<Rightarrow> string" where
  "toPrefix L name =
     (if name = [] then []
      else ToUpper L (if \<not> HasSuffix name ''_'' then name @ ''_'' else name))"

definition ReadEnv :: "golib \<Rightarrow> (string \<rightharpoonup> string) \<Rightarrow> iface \<Rightarrow> string \<Rightarrow> store \<Rightarrow> outcome \<times> store" where
  "ReadEnv L environ cfg appname st =
     (case readStructMetadata L cfg of
        Err err \<Rightarrow> (Failed err, st)
      | Panic msg \<Rightarrow> (Panicked msg, st)
      | Ok meta \<Rightarrow>
          (case readEnvVars L environ meta (toPrefix L appname) st of
             (NoError, st') \<Rightarrow> finalize L meta st'
           | (err, st') \<Rightarrow> (err, st')))"

subsection \<open>Command-line flags\<close>

definition toFlagName :: "golib \<Rightarrow> string \<Rightarrow> string list \<Rightarrow> string" where
  "toFlagName L name aliases =
     (if length aliases > 0 then ReplaceAll (ToLower L (aliases ! 0)) (CHR ''_'') (CHR ''-'')
      else ToLower L name)"

text \<open>
  The first loop of \<^verbatim>\<open>readFlagVars\<close> registers one string flag per new flag name in a
  flag set of its own and keeps, under the field's name, the pointer
  \<^verbatim>\<open>flagSet.String\<close> returns. \<open>names\<close> is the set of flag names taken; \<open>values\<close> maps a
  field name to what its pointer points to, the flag's default \<^verbatim>\<open>""\<close>.
\<close>

fun registerFlags :: "golib \<Rightarrow> structMeta list \<Rightarrow> string set \<Rightarrow> (string \<rightharpoonup> string)
                        \<Rightarrow> string set \<times> (string \<rightharpoonup> string)" where
  "registerFlags L [] names values = (names, values)"
| "registerFlags L (meta # metaInfo) names values =
     (if toFlagName L (fieldName meta) (envList meta) \<in> names
      then registerFlags L metaInfo names values
      else registerFlags L metaInfo
             (insert (toFlagName L (fieldName meta) (envList meta)) names)
             (values (fieldName meta \<mapsto> [])))"

text \<open>
  The second loop dereferences the pointer kept under each field's name; a nil pointer
  panics.
\<close>

fun applyFlags :: "golib \<Rightarrow> (string \<rightharpoonup> string) \<Rightarrow> structMeta list \<Rightarrow> store \<Rightarrow> outcome \<times> store" where
  "applyFlags L values [] st = (NoError, st)"
| "applyFlags L values (meta # metaInfo) st =
     (case values (fieldName meta) of
        None \<Rightarrow> (Panicked ''invalid memory address or nil pointer dereference'', st)
      | Some flagVal \<Rightarrow>
          if flagVal = [] then applyFlags L values metaInfo st
          else
            (case parseField L meta flagVal st of
               (NoError, st') \<Rightarrow> applyFlags L values metaInfo st'
             | (err, st') \<Rightarrow> (err, st')))"

text \<open>
  Between the loops \<^verbatim>\<open>flag.Parse()\<close> parses the process's arguments against the global
  flag set, not against the set the flags were registered in, so no registered flag
  receives a value; it either returns or ends the process.
\<close>

datatype flagOutcome = Returned outcome | Exited

definition readFlagVars :: "golib \<Rightarrow> bool \<Rightarrow> structMeta list \<Rightarrow> store \<Rightarrow> flagOutcome \<times> store" where
  "readFlagVars L parseReturns metaInfo st =
     (case registerFlags L metaInfo {} Map.empty of
        (names, values) \<Rightarrow>
          if \<not> parseReturns then (Exited, st)
          else (case applyFlags L values metaInfo st of (r, st') \<Rightarrow> (Returned r, st')))"

section \<open>Concrete inputs\<close>

text \<open>
  A library whose parameters are the simplest possible: no type implements
  \<^verbatim>\<open>Setter\<close>, and the parts left open (Unicode paths, floats, durations, times) are
  never reached on the ASCII input of the integer, string, slice and map fields below.
\<close>

definition plainLib :: golib where
  "plainLib =
     \<lparr>TrimFuncSpace = (\<lambda>s. s), MapToUpper = (\<lambda>s. s), MapToLower = (\<lambda>s. s),
      explode = map (\<lambda>c. [c]),
      ParseFloat = (\<lambda>s b. (0, Some (ForeignError ''strconv.ParseFloat''))),
      ParseDuration = (\<lambda>s. (0, Some (ForeignError ''time.ParseDuration''))),
      TimeParse = (\<lambda>l s. (VNil, Some (ForeignError ''time.Parse''))),
      SetValue = (\<lambda>t. None)\<rparr>"

definition intT :: gotype where
  "intT = Prim KInt [] ''int''"

definition stringT :: gotype where
  "stringT = Prim KString [] ''string''"

text \<open>The record \<^verbatim>\<open>struct { Port int `env:"PORT" env-default:"8080" env-required:"true"` }\<close>.\<close>

definition requiredPort :: gotype where
  "requiredPort = StructT ''main'' ''Config''
     [SField ''Port'' True
        [(''env'', ''PORT''), (''env-default'', ''8080''), (''env-required'', ''true'')] intT]"

text \<open>The same record without \<^verbatim>\<open>env-required\<close>, with the default literal \<open>d\<close>.\<close>

definition optionalPort :: "string \<Rightarrow> gotype" where
  "optionalPort d = StructT ''main'' ''Config''
     [SField ''Port'' True [(''env'', ''PORT''), (''env-default'', d)] intT]"

text \<open>The empty environment, and the environment with the one variable \<open>k\<close> set to \<open>v\<close>.\<close>

definition noEnv :: "string \<rightharpoonup> string" where
  "noEnv = Map.empty"

definition envOnly :: "string \<Rightarrow> string \<Rightarrow> (string \<rightharpoonup> string)" where
  "envOnly k v = [k \<mapsto> v]"

text \<open>A fresh record of one integer field: the field at address \<open>[0]\<close> holds 0.\<close>

definition portUnset :: store where
  "portUnset = (\<lambda>a. VNil)([0] := VInt 0)"

text \<open>
  \<^verbatim>\<open>struct { DB struct { Port int `env:"PORT"` } `env-prefix:"DB_"` }\<close>, and a fresh
  value of it.
\<close>

definition dbConfig :: gotype where
  "dbConfig = StructT ''main'' ''Config''
     [SField ''DB'' True [(''env-prefix'', ''DB_'')]
        (StructT [] [] [SField ''Port'' True [(''env'', ''PORT'')] intT])]"

definition dbUnset :: store where
  "dbUnset = (\<lambda>a. VNil)([0, 0] := VInt 0)"

text \<open>
  \<^verbatim>\<open>struct { Name string `env:"NAME"`; inner struct { Port int `env:"PORT"` } }\<close>: the
  second field is unexported and of struct type.
\<close>

definition hiddenField :: sfield where
  "hiddenField =
     SField ''inner'' False [] (StructT [] [] [SField ''Port'' True [(''env'', ''PORT'')] intT])"

definition hiddenGroup :: gotype where
  "hiddenGroup = StructT ''main'' ''Config''
     [SField ''Name'' True [(''env'', ''NAME'')] stringT, hiddenField]"

text \<open>\<^verbatim>\<open>type Inner struct { X int }\<close>.\<close>

definition innerT :: gotype where
  "innerT = StructT ''main'' ''Inner'' [SField ''X'' True [] intT]"

text \<open>
  \<^verbatim>\<open>struct { A int `env:"X"`; B int `env:"X"` }\<close> and its two descriptors: both fields
  synthesize the flag name \<^verbatim>\<open>x\<close>.
\<close>

definition sameKey :: gotype where
  "sameKey = StructT ''main'' ''Config''
     [SField ''A'' True [(''env'', ''X'')] intT, SField ''B'' True [(''env'', ''X'')] intT]"

definition metaA :: structMeta where
  "metaA = \<lparr>envList = [''X''], fieldName = ''A'', fieldValue = (intT, [0]),
          defValue = None, layout = None, separator = '','', description = [], required = False\<rparr>"

definition metaB :: structMeta where
  "metaB = \<lparr>envList = [''X''], fieldName = ''B'', fieldValue = (intT, [1]),
          defValue = None, layout = None, separator = '','', description = [], required = False\<rparr>"


text \<open>
  \<^verbatim>\<open>struct { P int `env:"P"`; Q int `env:"Q"`; R int `env:"R"` }\<close>, its descriptors, a
  fresh value of it, that value once \<^verbatim>\<open>P\<close> is set to 1, and an environment in which
  \<^verbatim>\<open>Q\<close> is not a number.
\<close>

definition threeInts :: gotype where
  "threeInts = StructT ''main'' ''Config''
     [SField ''P'' True [(''env'', ''P'')] intT,
      SField ''Q'' True [(''env'', ''Q'')] intT,
      SField ''R'' True [(''env'', ''R'')] intT]"

definition intMeta :: "string \<Rightarrow> nat \<Rightarrow> structMeta" where
  "intMeta name idx =
     \<lparr>envList = [name], fieldName = name, fieldValue = (intT, [idx]),
      defValue = None, layout = None, separator = '','', description = [], required = False\<rparr>"

definition threeUnset :: store where
  "threeUnset = (\<lambda>a. VNil)([0] := VInt 0, [1] := VInt 0, [2] := VInt 0)"

definition pSet :: store where
  "pSet = threeUnset([0] := VInt 1)"

definition envPQR :: "string \<rightharpoonup> string" where
  "envPQR = [''P'' \<mapsto> ''1'', ''Q'' \<mapsto> ''x'', ''R'' \<mapsto> ''3'']"

text \<open>
  A record of one exported field \<^verbatim>\<open>Value\<close> of type \<open>t\<close> with key \<open>key\<close> and default
  literal \<open>d\<close>, not required:
  \<^verbatim>\<open>struct { Value t `env:"key" env-default:"d"` }\<close>.
\<close>

definition oneField :: "gotype \<Rightarrow> string \<Rightarrow> string \<Rightarrow> gotype" where
  "oneField t key d = StructT ''main'' ''Config''
     [SField ''Value'' True [(''env'', key), (''env-default'', d)] t]"

text \<open>
  \<^verbatim>\<open>float64\<close>, the bit patterns of \<open>-0\<close> and of \<open>1.5\<close>, a fresh record of one float
  field, and the plain library with \<^verbatim>\<open>strconv.ParseFloat\<close> given at the two literals
  \<^verbatim>\<open>"-0"\<close> (which it parses to the negative zero) and \<^verbatim>\<open>"1.5"\<close>.
\<close>

definition float64T :: gotype where
  "float64T = Prim KFloat64 [] ''float64''"

definition negZero :: "64 word" where
  "negZero = 0x8000000000000000"

definition onePointFive :: "64 word" where
  "onePointFive = 0x3FF8000000000000"

definition ratioUnset :: store where
  "ratioUnset = (\<lambda>a. VNil)([0] := VFloat 0)"

definition floatLib :: golib where
  "floatLib = plainLib
     \<lparr>ParseFloat :=
        (\<lambda>s b. if s = ''-0'' then (negZero, None)
                else if s = ''1.5'' then (onePointFive, None)
                else (0, Some (ForeignError ''strconv.ParseFloat'')))\<rparr>"

text \<open>The descriptor of the field of \<open>optionalPort d\<close>.\<close>

definition portMeta :: "string \<Rightarrow> structMeta" where
  "portMeta d =
     \<lparr>envList = [''PORT''], fieldName = ''Port'', fieldValue = (intT, [0]),
      defValue = Some d, layout = None, separator = '','', description = [], required = False\<rparr>"

text \<open>\<^verbatim>\<open>type Octet uint8\<close>: a defined type of kind \<^verbatim>\<open>Uint8\<close> that is not \<^verbatim>\<open>uint8\<close>.\<close>

definition octetT :: gotype where
  "octetT = Prim KUint8 ''main'' ''Octet''"

section \<open>Evaluation lemmas\<close>

lemmas tag_defs = TagEnv_def TagEnvLayout_def TagEnvDefault_def TagEnvSeparator_def
  TagEnvDescription_def TagEnvRequired_def TagEnvPrefix_def DefaultSeparator_def

lemmas strconv_defs = ParseInt_def ParseUint_def basePrefix_def isDigit_def isLetter_def byte_def
  IntSize_def maxUint64_def int64_def neg64_def underscoreOK_def syntaxError_def rangeError_def
  isErrRange_def withFunc_def digitVal_def mul64_def add64_def

lemmas meta_defs = readStructMetadata_def readField_def Lookup_def Get_def tag_defs
  intT_def stringT_def timeTime_def Split_def splitLoop.simps

lemma parseValue_intT:
  "parseValue L intT raw sep lay v =
     (case ParseInt raw 0 64 of (n, None) \<Rightarrow> (NoError, VInt n) | (n, Some e) \<Rightarrow> (Failed e, v))"
  by (simp add: parseValue.simps asSetter_def intT_def parseScalar_def IntSize_def
           split: prod.splits option.splits)

lemma meta_requiredPort:
  "readStructMetadata L (PtrTo requiredPort (Some [])) =
     Ok [\<lparr>envList = [''PORT''], fieldName = ''Port'', fieldValue = (intT, [0]),
          defValue = Some ''8080'', layout = None, separator = '','', description = [],
          required = True\<rparr>]"
  by (simp add: requiredPort_def meta_defs)

lemma meta_optionalPort:
  "readStructMetadata L (PtrTo (optionalPort d) (Some [])) =
     Ok [\<lparr>envList = [''PORT''], fieldName = ''Port'', fieldValue = (intT, [0]),
          defValue = Some d, layout = None, separator = '','', description = [],
          required = False\<rparr>]"
  by (simp add: optionalPort_def meta_defs)

lemma meta_dbConfig:
  "readStructMetadata L (PtrTo dbConfig (Some [])) =
     Ok [\<lparr>envList = [''DB_PORT''], fieldName = ''Port'', fieldValue = (intT, [0, 0]),
          defValue = None, layout = None, separator = '','', description = [],
          required = False\<rparr>]"
  by (simp add: dbConfig_def meta_defs)

lemma meta_sameKey: "readStructMetadata L (PtrTo sameKey (Some [])) = Ok [metaA, metaB]"
  by (simp add: sameKey_def metaA_def metaB_def meta_defs)

lemma ParseInt_8080: "ParseInt ''8080'' 0 64 = (8080, None)"
  by (simp add: strconv_defs)

lemma ParseInt_9090: "ParseInt ''9090'' 0 64 = (9090, None)"
  by (simp add: strconv_defs)

lemma ParseInt_0: "ParseInt ''0'' 0 64 = (0, None)"
  by (simp add: strconv_defs)

lemma toPrefix_APP: "toPrefix L ''APP'' = ''APP_''"
  by (simp add: toPrefix_def HasSuffix_def ToUpper_def upperASCII_def byte_def suffix_def)

lemma ParseInt_1: "ParseInt ''1'' 0 64 = (1, None)"
  by (simp add: strconv_defs)

lemma ParseInt_x: "ParseInt ''x'' 0 64 = (0, Some (NumError ''ParseInt'' ''x'' ErrSyntax))"
  by (simp add: strconv_defs)


lemma meta_threeInts:
  "readStructMetadata L (PtrTo threeInts (Some [])) = Ok [intMeta ''P'' 0, intMeta ''Q'' 1, intMeta ''R'' 2]"
  by (simp add: threeInts_def intMeta_def meta_defs)




section \<open>The required check and the default (C1)\<close>

text \<open>
  C1, as stated, fails: for the record with the single field \<^verbatim>\<open>Port int\<close> tagged with
  key \<^verbatim>\<open>PORT\<close>, default \<^verbatim>\<open>"8080"\<close> and required, and no variable \<^verbatim>\<open>PORT\<close> in the
  environment, \<^verbatim>\<open>ReadEnv\<close> does not return \<^verbatim>\<open>nil\<close> with the field at 8080.
\<close>

theorem C1_counterexample:
  "\<not> (fst (ReadEnv plainLib noEnv (PtrTo requiredPort (Some [])) [] portUnset) = NoError
      \<and> snd (ReadEnv plainLib noEnv (PtrTo requiredPort (Some [])) [] portUnset) [0] = VInt 8080)"
  by (simp add: ReadEnv_def meta_requiredPort toPrefix_def isFieldValueZero_def noEnv_def
        portUnset_def)

text \<open>
  C1, amended: \<^verbatim>\<open>finalize\<close> checks \<^verbatim>\<open>required\<close> before it applies a default. With the
  required field at zero and no \<^verbatim>\<open>PORT\<close> in the environment, \<^verbatim>\<open>ReadEnv\<close> returns the error
  "field Port is required" and leaves the record as it was; with \<^verbatim>\<open>PORT=9090\<close> it returns
  \<^verbatim>\<open>nil\<close> and the field ends as 9090; and for the same field without the required tag,
  no \<^verbatim>\<open>PORT\<close> leaves the field at the default 8080 with no error.
\<close>

theorem C1_required_checked_before_default:
  "(environ ''PORT'' = None \<longrightarrow> st [0] = VInt 0 \<longrightarrow>
      ReadEnv L environ (PtrTo requiredPort (Some [])) [] st
        = (Failed (RequiredNotProvided ''Port''), st))
   \<and> (environ ''PORT'' = Some ''9090'' \<longrightarrow>
      ReadEnv L environ (PtrTo requiredPort (Some [])) [] st = (NoError, st([0] := VInt 9090)))
   \<and> (environ ''PORT'' = None \<longrightarrow> st [0] = VInt 0 \<longrightarrow>
      ReadEnv L environ (PtrTo (optionalPort ''8080'') (Some [])) [] st
        = (NoError, st([0] := VInt 8080)))"
  by (simp add: ReadEnv_def meta_requiredPort meta_optionalPort toPrefix_def parseField_def
        isFieldValueZero_def parseValue_intT ParseInt_8080 ParseInt_9090)

theorem C1_required_checked_before_default_witness:
  "noEnv ''PORT'' = None \<and> portUnset [0] = VInt 0
   \<and> ReadEnv plainLib noEnv (PtrTo requiredPort (Some [])) [] portUnset
        = (Failed (RequiredNotProvided ''Port''), portUnset)
   \<and> envOnly ''PORT'' ''9090'' ''PORT'' = Some ''9090''
   \<and> ReadEnv plainLib (envOnly ''PORT'' ''9090'') (PtrTo requiredPort (Some [])) [] portUnset
        = (NoError, portUnset([0] := VInt 9090))
   \<and> ReadEnv plainLib noEnv (PtrTo (optionalPort ''8080'') (Some [])) [] portUnset
        = (NoError, portUnset([0] := VInt 8080))"
  using C1_required_checked_before_default [of noEnv portUnset plainLib]
    C1_required_checked_before_default [of "envOnly ''PORT'' ''9090''" portUnset plainLib]
  by (simp add: noEnv_def envOnly_def portUnset_def)

section \<open>The key of a field in a nested group (C2)\<close>

lemma ReadEnv_dbConfig:
  "ReadEnv L environ (PtrTo dbConfig (Some [])) appname st =
     (case environ (toPrefix L appname @ ''DB_PORT'') of
        None \<Rightarrow> (NoError, st)
      | Some raw \<Rightarrow>
          (case ParseInt raw 0 64 of
             (n, None) \<Rightarrow> (NoError, st([0, 0] := VInt n))
           | (n, Some e) \<Rightarrow> (Failed e, st)))"
  by (simp add: ReadEnv_def meta_dbConfig parseField_def isFieldValueZero_def
        parseValue_intT split: prod.splits option.splits)

text \<open>
  C2, as stated, fails in its second half: with the application prefix \<^verbatim>\<open>APP\<close>, a value
  set under \<^verbatim>\<open>APPDB_PORT\<close> is not read into the field of the nested group.
\<close>

theorem C2_counterexample:
  "\<not> (snd (ReadEnv plainLib (envOnly ''APPDB_PORT'' ''5432'') (PtrTo dbConfig (Some [])) ''APP'' dbUnset)
        [0, 0] = VInt 5432)"
  by (simp add: ReadEnv_dbConfig toPrefix_APP envOnly_def dbUnset_def)

text \<open>
  C2, amended: for the nested group with prefix \<^verbatim>\<open>DB_\<close> and inner key \<^verbatim>\<open>PORT\<close>, the one
  variable \<^verbatim>\<open>ReadEnv\<close> reads is \<^verbatim>\<open>DB_PORT\<close> when the application prefix is empty and
  \<^verbatim>\<open>APP_DB_PORT\<close> when it is \<^verbatim>\<open>APP\<close> (\<^verbatim>\<open>toPrefix\<close> appends the underscore): the outcome
  and the record afterwards are a function of that variable alone.
\<close>

theorem C2_nested_prefix_key:
  "ReadEnv L environ (PtrTo dbConfig (Some [])) [] st =
     (case environ ''DB_PORT'' of
        None \<Rightarrow> (NoError, st)
      | Some raw \<Rightarrow>
          (case ParseInt raw 0 64 of
             (n, None) \<Rightarrow> (NoError, st([0, 0] := VInt n))
           | (n, Some e) \<Rightarrow> (Failed e, st)))
   \<and> ReadEnv L environ (PtrTo dbConfig (Some [])) ''APP'' st =
     (case environ ''APP_DB_PORT'' of
        None \<Rightarrow> (NoError, st)
      | Some raw \<Rightarrow>
          (case ParseInt raw 0 64 of
             (n, None) \<Rightarrow> (NoError, st([0, 0] := VInt n))
           | (n, Some e) \<Rightarrow> (Failed e, st)))"
proof
  have "toPrefix L [] = []" by (simp add: toPrefix_def)
  then show "ReadEnv L environ (PtrTo dbConfig (Some [])) [] st =
     (case environ ''DB_PORT'' of
        None \<Rightarrow> (NoError, st)
      | Some raw \<Rightarrow>
          (case ParseInt raw 0 64 of
             (n, None) \<Rightarrow> (NoError, st([0, 0] := VInt n))
           | (n, Some e) \<Rightarrow> (Failed e, st)))"
    by (simp add: ReadEnv_dbConfig)
next
  show "ReadEnv L environ (PtrTo dbConfig (Some [])) ''APP'' st =
     (case environ ''APP_DB_PORT'' of
        None \<Rightarrow> (NoError, st)
      | Some raw \<Rightarrow>
          (case ParseInt raw 0 64 of
             (n, None) \<Rightarrow> (NoError, st([0, 0] := VInt n))
           | (n, Some e) \<Rightarrow> (Failed e, st)))"
    by (simp add: ReadEnv_dbConfig toPrefix_APP)
qed

section \<open>Unexported fields (C3)\<close>

text \<open>An unexported field that is not a nested struct is skipped: it gets no descriptor.\<close>

lemma unexported_leaf_skipped:
  "\<not> exported f \<Longrightarrow> Kind (Type f) \<noteq> KStruct \<or> Type f = timeTime \<Longrightarrow>
     readField L sPrefix saddr idx f = Skip"
  by (auto simp: readField_def split: option.splits)

lemma readFields_unexported_struct_panics:
  "f \<in> set fs \<Longrightarrow> \<not> exported f \<Longrightarrow> Kind (Type f) = KStruct \<Longrightarrow> Type f \<noteq> timeTime \<Longrightarrow>
     \<exists>msg. readFields L sPrefix (Some a) idx fs cfgStack metas = Panic msg"
proof (induction fs arbitrary: idx cfgStack metas)
  case Nil
  then show ?case by simp
next
  case (Cons g rest)
  show ?case
  proof (cases "g = f")
    case True
    with Cons.prems show ?thesis by (simp add: readField_def)
  next
    case False
    with Cons.prems have "f \<in> set rest" by simp
    from Cons.IH [OF this Cons.prems(2-4)] show ?thesis
      by (cases "readField L sPrefix (Some a) idx g") simp_all
  qed
qed

text \<open>
  C3 does not hold of the code: the nested-struct branch of \<^verbatim>\<open>readStructMetadata\<close> runs
  before the \<^verbatim>\<open>CanSet\<close> check and calls \<^verbatim>\<open>Addr().Interface()\<close> on the field, which panics
  on an unexported field. Whenever the root struct has an unexported field of struct type
  other than \<^verbatim>\<open>time.Time\<close>, introspection of a pointer to it panics.
\<close>

theorem C3_unexported_nested_struct_panics:
  "f \<in> set fs \<Longrightarrow> \<not> exported f \<Longrightarrow> Kind (Type f) = KStruct \<Longrightarrow> Type f \<noteq> timeTime \<Longrightarrow>
     \<exists>msg. readStructMetadata L (PtrTo (StructT p n fs) (Some a)) = Panic msg"
proof -
  assume "f \<in> set fs" "\<not> exported f" "Kind (Type f) = KStruct" "Type f \<noteq> timeTime"
  from readFields_unexported_struct_panics [OF this]
  obtain msg where "readFields L [] (Some a) 0 fs [] [] = Panic msg" by blast
  then show ?thesis by (simp add: readStructMetadata_def)
qed

theorem C3_unexported_nested_struct_panics_witness:
  "hiddenField \<in> set [SField ''Name'' True [(''env'', ''NAME'')] stringT, hiddenField]
   \<and> \<not> exported hiddenField \<and> Kind (Type hiddenField) = KStruct \<and> Type hiddenField \<noteq> timeTime
   \<and> (\<exists>msg. readStructMetadata plainLib (PtrTo hiddenGroup (Some [])) = Panic msg)"
  using C3_unexported_nested_struct_panics
    [of hiddenField "[SField ''Name'' True [(''env'', ''NAME'')] stringT, hiddenField]"
        plainLib "''main''" "''Config''" "[]"]
  by (simp add: hiddenGroup_def hiddenField_def timeTime_def)

lemma hiddenGroup_panics:
  "readStructMetadata L (PtrTo hiddenGroup (Some [])) =
     Panic ''reflect.Value.Interface: cannot return value obtained from unexported field or method''"
  by (simp add: hiddenGroup_def hiddenField_def meta_defs)

section \<open>Structs and unsupported kinds in \<^verbatim>\<open>parseValue\<close> (C4)\<close>

text \<open>A type of an unsupported kind fails with the error that names the type.\<close>

lemma unsupported_kind_fails:
  "asSetter L t = None \<Longrightarrow>
   Kind t \<in> {KInvalid, KUintptr, KComplex64, KComplex128, KArray, KChan, KFunc, KInterface, KPtr,
             KUnsafePointer} \<Longrightarrow>
     parseValue L t raw sep lay v = (Failed (UnsupportedType (PkgPath t) (TypeName t)), v)"
  by (auto simp: parseValue.simps parseScalar_def)

text \<open>
  C4 does not hold of the code: the \<^verbatim>\<open>reflect.Struct\<close> case of \<^verbatim>\<open>parseValue\<close> handles
  \<^verbatim>\<open>time.Time\<close> and has no \<^verbatim>\<open>else\<close>. For a struct type that is not \<^verbatim>\<open>time.Time\<close> and
  has no setter, \<^verbatim>\<open>parseValue\<close> returns \<^verbatim>\<open>nil\<close> and leaves the field as it was, whatever
  the raw string.
\<close>

theorem C4_other_struct_silently_accepted:
  "asSetter L t = None \<Longrightarrow> Kind t = KStruct \<Longrightarrow> \<not> (PkgPath t = ''time'' \<and> TypeName t = ''Time'') \<Longrightarrow>
     parseValue L t raw sep lay v = (NoError, v)"
  by (auto simp: parseValue.simps parseStruct_def)

theorem C4_other_struct_silently_accepted_witness:
  "asSetter plainLib innerT = None \<and> Kind innerT = KStruct
   \<and> \<not> (PkgPath innerT = ''time'' \<and> TypeName innerT = ''Time'')
   \<and> parseValue plainLib innerT ''x=1'' '','' None (VStruct [VInt 0]) = (NoError, VStruct [VInt 0])"
  using C4_other_struct_silently_accepted [of plainLib innerT "''x=1''" "'',''" None "VStruct [VInt 0]"]
  by (simp add: asSetter_def plainLib_def innerT_def)

text \<open>
  Such a struct reaches \<^verbatim>\<open>parseValue\<close> as the element of a slice: a field of type
  \<^verbatim>\<open>[]Inner\<close> given \<^verbatim>\<open>"a,b"\<close> ends as two zero structs, with no error.
\<close>

lemma slice_of_structs_silently_zero:
  "parseValue plainLib (SliceT [] [] innerT) ''a,b'' '','' None VNil
     = (NoError, VSlice [VStruct [VInt 0], VStruct [VInt 0]])"
  by (simp add: parseValue.simps parseSlice.simps parseStruct_def setField_def assignableTo_def
        asSetter_def plainLib_def innerT_def intT_def TrimSpace_def asciiSpace_def byte_def
        Split_def splitLoop.simps)

section \<open>Duplicate flag names (C5)\<close>

text \<open>
  C5 does not hold of the code: the descriptor whose flag name is taken is skipped by the
  first loop of \<^verbatim>\<open>readFlagVars\<close>, so no pointer is stored under its field name, and the
  second loop dereferences the nil pointer it finds there. For two descriptors with the
  same flag name and different field names, \<^verbatim>\<open>readFlagVars\<close> panics.
\<close>

theorem C5_dropped_duplicate_panics:
  "toFlagName L (fieldName m1) (envList m1) = toFlagName L (fieldName m2) (envList m2) \<Longrightarrow>
   fieldName m1 \<noteq> fieldName m2 \<Longrightarrow>
     readFlagVars L True [m1, m2] st
       = (Returned (Panicked ''invalid memory address or nil pointer dereference''), st)"
  by (simp add: readFlagVars_def)

theorem C5_dropped_duplicate_panics_witness:
  "toFlagName plainLib (fieldName metaA) (envList metaA) = toFlagName plainLib (fieldName metaB) (envList metaB)
   \<and> fieldName metaA \<noteq> fieldName metaB
   \<and> readStructMetadata plainLib (PtrTo sameKey (Some [])) = Ok [metaA, metaB]
   \<and> readFlagVars plainLib True [metaA, metaB] portUnset
       = (Returned (Panicked ''invalid memory address or nil pointer dereference''), portUnset)"
  using C5_dropped_duplicate_panics [of plainLib metaA metaB portUnset]
  by (simp add: metaA_def metaB_def meta_sameKey toFlagName_def ToLower_def lowerASCII_def
        byte_def ReplaceAll_def)

section \<open>A supplied zero and the default (C10)\<close>

lemma Index_absent: "c \<notin> set s \<Longrightarrow> Index s [c] = None"
  by (induction s) auto

lemma Split_no_comma: "CHR '','' \<notin> set s \<Longrightarrow> Split L s '','' = [s]"
  by (simp add: Split_def splitLoop.simps Index_absent)

lemma meta_oneField:
  assumes "Kind t \<noteq> KStruct \<or> t = timeTime" "key \<noteq> []" "CHR '','' \<notin> set key"
  shows "readStructMetadata L (PtrTo (oneField t key d) (Some [])) =
     Ok [\<lparr>envList = [key], fieldName = ''Value'', fieldValue = (t, [0]),
          defValue = Some d, layout = None, separator = '','', description = [],
          required = False\<rparr>]"
  using assms
  by (auto simp: oneField_def readStructMetadata_def readField_def Lookup_def Get_def tag_defs
        Split_no_comma)

lemma float_zeros: "negZero \<noteq> 0" "onePointFive \<noteq> 0" "negZero \<noteq> onePointFive"
  "\<not> isNaN negZero" "\<not> isNaN 0" "negZero AND 0x7FFFFFFFFFFFFFFF = 0"
  by (simp_all add: negZero_def onePointFive_def isNaN_def)

lemma parseValue_float64T:
  "parseValue L float64T raw sep lay v =
     (case ParseFloat L raw 64 of (x, None) \<Rightarrow> (NoError, VFloat x) | (x, Some e) \<Rightarrow> (Failed e, v))"
  by (simp add: parseValue.simps asSetter_def float64T_def parseScalar_def
           split: prod.splits option.splits)

text \<open>
  C10, as stated, fails for a float field: the supplied \<^verbatim>\<open>-0\<close> equals the zero value of
  \<^verbatim>\<open>float64\<close> under \<^verbatim>\<open>==\<close>, but \<^verbatim>\<open>isZero\<close> compares \<^verbatim>\<open>math.Float64bits\<close> with 0, so the
  field is not taken for unset and the default \<^verbatim>\<open>1.5\<close> is not applied.
\<close>

theorem C10_counterexample:
  "goEq (VFloat negZero) (zeroOf float64T)
   \<and> ReadEnv floatLib (envOnly ''RATIO'' ''-0'') (PtrTo (oneField float64T ''RATIO'' ''1.5'') (Some []))
        [] ratioUnset = (NoError, ratioUnset([0] := VFloat negZero))
   \<and> snd (ReadEnv floatLib (envOnly ''RATIO'' ''-0'') (PtrTo (oneField float64T ''RATIO'' ''1.5'') (Some []))
        [] ratioUnset) [0] \<noteq> VFloat onePointFive"
proof -
  have k: "Kind float64T \<noteq> KStruct \<or> float64T = timeTime" "''RATIO'' \<noteq> []" "CHR '','' \<notin> set ''RATIO''"
    by (simp_all add: float64T_def)
  have z: "goEq (VFloat negZero) (zeroOf float64T)"
    by (simp add: float64T_def floatEq_def float_zeros)
  have r: "ReadEnv floatLib (envOnly ''RATIO'' ''-0'') (PtrTo (oneField float64T ''RATIO'' ''1.5'') (Some []))
        [] ratioUnset = (NoError, ratioUnset([0] := VFloat negZero))"
    by (simp add: ReadEnv_def meta_oneField [OF k] toPrefix_def envOnly_def parseField_def
          parseValue_float64T floatLib_def plainLib_def isFieldValueZero_def float_zeros)
  from z r float_zeros show ?thesis by simp
qed

lemma finalize_append:
  "finalize L (ms1 @ ms2) st =
     (case finalize L ms1 st of
        (NoError, st1) \<Rightarrow> finalize L ms2 st1
      | (r, st1) \<Rightarrow> (r, st1))"
  by (induction ms1 arbitrary: st) (auto split: prod.splits outcome.splits)

lemma finalize_zero_default:
  assumes "finalize L before st0 = (NoError, st1)"
    and "\<not> required m" "isZero (st1 (snd (fieldValue m)))" "defValue m = Some d"
  shows "finalize L (before @ m # rest) st0 =
           (case parseField L m d st1 of
              (NoError, st2) \<Rightarrow> finalize L rest st2
            | (err, st2) \<Rightarrow> (err, st2))"
  using assms by (simp add: finalize_append isFieldValueZero_def)

lemma one_field_zero_default:
  assumes "Kind t \<noteq> KStruct \<or> t = timeTime" "key \<noteq> []" "CHR '','' \<notin> set key"
    and "environ key = Some raw"
    and "parseValue L t raw '','' None (st [0]) = (NoError, v)"
    and "isZero v"
  shows "ReadEnv L environ (PtrTo (oneField t key d) (Some [])) [] st =
           (case parseValue L t d '','' None v of (r, v') \<Rightarrow> (r, st([0] := v')))"
proof -
  obtain r v' where d: "parseValue L t d '','' None v = (r, v')"
    by fastforce
  from assms(4-6) d show ?thesis
    by (cases r)
       (simp_all add: ReadEnv_def meta_oneField [OF assms(1-3)] toPrefix_def parseField_def
          isFieldValueZero_def)
qed

text \<open>
  C10, amended: a supplied value survives \<^verbatim>\<open>finalize\<close> unless \<^verbatim>\<open>isZero\<close> holds of it (the
  zero bit pattern of its type: for a float \<open>+0\<close> only, not \<open>-0\<close>). Whenever \<^verbatim>\<open>finalize\<close>
  reaches a non-required descriptor with a default literal whose field \<^verbatim>\<open>isZero\<close> holds
  of, wherever that value came from, it coerces the default into the field, and goes on
  if that succeeds. End to end, for any record of one non-required field of a leaf type
  \<open>t\<close> with key \<open>key\<close> and default literal \<open>d\<close>: if the environment supplies a raw string
  for the key whose coercion succeeds and gives a value \<open>v\<close> of which \<^verbatim>\<open>isZero\<close> holds, then
  \<^verbatim>\<open>ReadEnv\<close> returns the outcome of coercing \<open>d\<close>, and the field holds what that coercion
  leaves. With \<^verbatim>\<open>PORT=0\<close> and the default \<^verbatim>\<open>8080\<close> an int field ends as 8080.
\<close>

theorem C10_zero_overwritten_by_default:
  "(finalize L before st0 = (NoError, st1) \<longrightarrow> \<not> required m \<longrightarrow>
      isZero (st1 (snd (fieldValue m))) \<longrightarrow> defValue m = Some d' \<longrightarrow>
        finalize L (before @ m # rest) st0 =
          (case parseField L m d' st1 of
             (NoError, st2) \<Rightarrow> finalize L rest st2
           | (err, st2) \<Rightarrow> (err, st2)))
   \<and> ((Kind t \<noteq> KStruct \<or> t = timeTime) \<longrightarrow> key \<noteq> [] \<longrightarrow> CHR '','' \<notin> set key \<longrightarrow>
      environ key = Some raw \<longrightarrow>
      parseValue L t raw '','' None (st [0]) = (NoError, v) \<longrightarrow>
      isZero v \<longrightarrow>
        ReadEnv L environ (PtrTo (oneField t key d) (Some [])) [] st =
          (case parseValue L t d '','' None v of (r, v') \<Rightarrow> (r, st([0] := v'))))"
  using finalize_zero_default [of L before st0 st1 m d' rest]
    one_field_zero_default [of t key environ raw L st v d]
  by blast

theorem C10_zero_overwritten_by_default_witness:
  "finalize plainLib [] portUnset = (NoError, portUnset) \<and> \<not> required (portMeta ''8080'')
   \<and> isZero (portUnset (snd (fieldValue (portMeta ''8080''))))
   \<and> defValue (portMeta ''8080'') = Some ''8080''
   \<and> finalize plainLib ([] @ portMeta ''8080'' # []) portUnset = (NoError, portUnset([0] := VInt 8080))
   \<and> Kind intT \<noteq> KStruct \<and> ''PORT'' \<noteq> [] \<and> CHR '','' \<notin> set ''PORT''
   \<and> envOnly ''PORT'' ''0'' ''PORT'' = Some ''0''
   \<and> parseValue plainLib intT ''0'' '','' None (portUnset [0]) = (NoError, VInt 0)
   \<and> isZero (VInt 0)
   \<and> ReadEnv plainLib (envOnly ''PORT'' ''0'') (PtrTo (oneField intT ''PORT'' ''8080'') (Some [])) [] portUnset
       = (NoError, portUnset([0] := VInt 8080))"
proof -
  have f: "finalize plainLib [] portUnset = (NoError, portUnset)" "\<not> required (portMeta ''8080'')"
    "isZero (portUnset (snd (fieldValue (portMeta ''8080''))))"
    "defValue (portMeta ''8080'') = Some ''8080''"
    by (simp_all add: portMeta_def portUnset_def)
  have pf: "parseField plainLib (portMeta ''8080'') ''8080'' portUnset = (NoError, portUnset([0] := VInt 8080))"
    by (simp add: parseField_def portMeta_def parseValue_intT ParseInt_8080)
  have k: "Kind intT \<noteq> KStruct" "''PORT'' \<noteq> []" "CHR '','' \<notin> set ''PORT''"
    by (simp_all add: intT_def)
  have e: "envOnly ''PORT'' ''0'' ''PORT'' = Some ''0''"
    by (simp add: envOnly_def)
  have p: "parseValue plainLib intT ''0'' '','' None (portUnset [0]) = (NoError, VInt 0)"
    by (simp add: parseValue_intT ParseInt_0)
  have z: "isZero (VInt 0)"
    by simp
  note inst = C10_zero_overwritten_by_default [where L = plainLib and before = "[]"
      and ?st0.0 = portUnset and ?st1.0 = portUnset and m = "portMeta ''8080''" and d' = "''8080''"
      and rest = "[]" and t = intT and key = "''PORT''"
      and environ = "envOnly ''PORT'' ''0''" and raw = "''0''" and st = portUnset
      and v = "VInt 0" and d = "''8080''"]
  from inst f pf k e p z show ?thesis
    by (simp add: parseValue_intT ParseInt_8080 del: append.simps)
qed

section \<open>Maps (C6)\<close>

subsection \<open>Key equality and the map operations\<close>
















subsection \<open>\<^verbatim>\<open>parseMap\<close>\<close>














section \<open>Slices (C7, C8)\<close>













text \<open>
  A field of type \<^verbatim>\<open>[]uint8\<close> (\<^verbatim>\<open>[]byte\<close>, or a defined type over it without a setter)
  receives the bytes of the raw string, one element per byte, whatever the separator.
\<close>

lemma byte_slice_takes_bytes:
  "asSetter L (SliceT p n uint8T) = None \<Longrightarrow>
     parseValue L (SliceT p n uint8T) val sep lay v = (NoError, VSlice (map (\<lambda>c. VUint (byte c)) val))"
  by (simp add: parseValue.simps parseSlice.simps setField_def assignableTo_def uint8T_def)

lemma byte_slice_hello:
  "parseValue plainLib (SliceT [] [] uint8T) ''hello'' '','' None VNil
     = (NoError, VSlice [VUint 104, VUint 101, VUint 108, VUint 108, VUint 111])"
  using byte_slice_takes_bytes [of plainLib "[]" "[]" "''hello''" "'',''" None VNil]
  by (simp add: asSetter_def uint8T_def byte_def)

text \<open>
  C8 does not hold of the code for every sequence of 8-bit unsigned integers: the byte
  branch of \<^verbatim>\<open>parseSlice\<close> is chosen by the kind of the element type, and it returns a
  \<^verbatim>\<open>[]uint8\<close>. When the element type is of kind \<^verbatim>\<open>Uint8\<close> without being \<^verbatim>\<open>uint8\<close> itself
  (\<^verbatim>\<open>type Octet uint8\<close>), that value is not assignable to the field, \<^verbatim>\<open>field.Set\<close> panics
  and the field is left as it was.
\<close>

theorem C8_defined_byte_element_panics:
  "asSetter L (SliceT p n e) = None \<Longrightarrow> Kind e = KUint8 \<Longrightarrow> e \<noteq> uint8T \<Longrightarrow>
     parseValue L (SliceT p n e) val sep lay field
       = (Panicked ''reflect.Set: value is not assignable to type'', field)"
  by (simp add: parseValue.simps parseSlice.simps setField_def assignableTo_def)

theorem C8_defined_byte_element_panics_witness:
  "asSetter plainLib (SliceT [] [] octetT) = None \<and> Kind octetT = KUint8 \<and> octetT \<noteq> uint8T
   \<and> parseValue plainLib (SliceT [] [] octetT) ''hello'' '','' None VNil
       = (Panicked ''reflect.Set: value is not assignable to type'', VNil)"
  using C8_defined_byte_element_panics [of plainLib "[]" "[]" octetT "''hello''" "'',''" None VNil]
  by (simp add: asSetter_def octetT_def uint8T_def)

section \<open>A failing coercion in a pass (C9)\<close>

lemma readEnvVars_append:
  "readEnvVars L environ (ms1 @ ms2) pfx st =
     (case readEnvVars L environ ms1 pfx st of
        (NoError, st1) \<Rightarrow> readEnvVars L environ ms2 pfx st1
      | (r, st1) \<Rightarrow> (r, st1))"
  by (induction ms1 arbitrary: st) (auto split: option.splits prod.splits outcome.splits)

lemma parseField_frame:
  "parseField L m raw st = (r, st') \<Longrightarrow> a \<noteq> snd (fieldValue m) \<Longrightarrow> st' a = st a"
  by (auto simp: parseField_def split: prod.splits)

lemma parseScalar_Failed_keeps:
  "parseScalar L t raw v = (Failed e, v') \<Longrightarrow> v' = v"
  by (auto simp: parseScalar_def Let_def split: if_splits prod.splits option.splits)

lemma parseValue_Failed_keeps:
  "asSetter L t = None \<Longrightarrow> parseValue L t raw sep lay v = (Failed e, v') \<Longrightarrow> v' = v"
  by (auto simp: parseValue.simps parseStruct_def setField_def Let_def
           dest: parseScalar_Failed_keeps
           split: if_splits prod.splits option.splits result.splits)

text \<open>
  C9: when, in \<^verbatim>\<open>readEnvVars\<close>, the descriptors \<open>before\<close> have been applied without error,
  giving the record \<open>st1\<close>, and the coercion of the value found for the next descriptor
  \<open>m\<close> fails, then \<^verbatim>\<open>readEnvVars\<close> returns that error whatever descriptors follow (they are
  not processed), and every field other than the one of \<open>m\<close> holds what it held in \<open>st1\<close>:
  nothing is rolled back. The field of \<open>m\<close> itself is unchanged too unless its type has a
  setter of its own.
\<close>

theorem C9_error_stops_pass_without_rollback:
  assumes "readEnvVars L environ before pfx st = (NoError, st1)"
    and "lookupEnvList environ pfx (envList m) = Some raw"
    and "parseField L m raw st1 = (Failed e, st2)"
  shows "readEnvVars L environ (before @ m # rest) pfx st = (Failed e, st2)
         \<and> (\<forall>a. a \<noteq> snd (fieldValue m) \<longrightarrow> st2 a = st1 a)
         \<and> (asSetter L (fst (fieldValue m)) = None \<longrightarrow> st2 = st1)"
proof (intro conjI allI impI)
  show "readEnvVars L environ (before @ m # rest) pfx st = (Failed e, st2)"
    using assms by (simp add: readEnvVars_append)
next
  fix a assume "a \<noteq> snd (fieldValue m)"
  with assms(3) show "st2 a = st1 a" by (rule parseField_frame)
next
  assume ns: "asSetter L (fst (fieldValue m)) = None"
  obtain r v where pv: "parseValue L (fst (fieldValue m)) raw (separator m) (layout m)
             (st1 (snd (fieldValue m))) = (r, v)" by fastforce
  with assms(3) have "r = Failed e" "st2 = st1 (snd (fieldValue m) := v)"
    by (auto simp: parseField_def)
  moreover from parseValue_Failed_keeps [OF ns] pv \<open>r = Failed e\<close>
  have "v = st1 (snd (fieldValue m))" by blast
  ultimately show "st2 = st1" by simp
qed

theorem C9_error_stops_pass_without_rollback_witness:
  "readStructMetadata plainLib (PtrTo threeInts (Some []))
      = Ok ([intMeta ''P'' 0] @ intMeta ''Q'' 1 # [intMeta ''R'' 2])
   \<and> readEnvVars plainLib envPQR [intMeta ''P'' 0] [] threeUnset = (NoError, pSet)
   \<and> lookupEnvList envPQR [] (envList (intMeta ''Q'' 1)) = Some ''x''
   \<and> parseField plainLib (intMeta ''Q'' 1) ''x'' pSet = (Failed (NumError ''ParseInt'' ''x'' ErrSyntax), pSet)
   \<and> readEnvVars plainLib envPQR ([intMeta ''P'' 0] @ intMeta ''Q'' 1 # [intMeta ''R'' 2]) [] threeUnset
       = (Failed (NumError ''ParseInt'' ''x'' ErrSyntax), pSet)
   \<and> pSet [0] = VInt 1 \<and> pSet [2] = VInt 0"
proof -
  have h1: "readEnvVars plainLib envPQR [intMeta ''P'' 0] [] threeUnset = (NoError, pSet)"
    by (simp add: intMeta_def envPQR_def parseField_def parseValue_intT ParseInt_1 pSet_def)
  have h2: "lookupEnvList envPQR [] (envList (intMeta ''Q'' 1)) = Some ''x''"
    by (simp add: intMeta_def envPQR_def)
  have h3: "parseField plainLib (intMeta ''Q'' 1) ''x'' pSet = (Failed (NumError ''ParseInt'' ''x'' ErrSyntax), pSet)"
    by (simp add: intMeta_def parseField_def parseValue_intT ParseInt_x)
  have v: "pSet [0] = VInt 1" "pSet [2] = VInt 0"
    by (simp_all add: pSet_def threeUnset_def)
  from C9_error_stops_pass_without_rollback [OF h1 h2 h3, of "[intMeta ''R'' 2]"] h1 h2 h3 v
  show ?thesis by (simp add: meta_threeInts del: append.simps)
qed

end
